theory Spec2Isabelle
  imports Main "HOL-Library.Word"
begin

section \<open>Solidity value types and failures\<close>

type_synonym address = "160 word"
type_synonym uint64 = "64 word"
type_synonym uint256 = "256 word"

text \<open>
  A Solidity \<open>revert\<close> is a value: the custom errors declared by
  \<open>ConfidentialERC7984Token\<close>, the errors of the inherited \<open>Ownable\<close> and
  \<open>ReentrancyGuard\<close>, the arithmetic panics of checked arithmetic, and the failure of a
  contract creation whose target address is already in use.
\<close>

datatype panic = UNDER_OVERFLOW | DIVISION_BY_ZERO

datatype error =
    InvalidAmount
  | SoldOut
  | InsufficientPayment uint256 uint256
  | RefundFailed
  | InvalidWithdraw
  | OwnableUnauthorizedAccount address
  | OwnableInvalidOwner address
  | ReentrancyGuardReentrantCall
  | Panic panic
  | CreateCollision address

datatype event =
    TokenPurchased address uint64 uint256 uint256
  | PriceUpdated uint256 uint256
  | Withdrawn address uint256

datatype factory_event =
    TokenCreated address address string string uint64 uint256

section \<open>Math.mulDiv\<close>

datatype Rounding = Floor | Ceil | Trunc | Expand

text \<open>\<open>uint8(rounding) % 2 == 1\<close>: the odd members of the enumeration round up.\<close>

definition unsignedRoundsUp :: "Rounding \<Rightarrow> bool" where
  "unsignedRoundsUp r = (r = Ceil \<or> r = Expand)"

text \<open>
  Modelled from the spec: \<open>Math.mulDiv\<close> of the imported OpenZeppelin library is not
  under src/. The spec asks for \<open>ceil(amount * pricePerTokenWei / BASE_UNITS)\<close> as integer
  math without precision loss: the product is computed in a wider intermediate type before
  dividing, and the quotient is rounded up when the remainder is not zero. The result type
  in the source is \<open>uint256\<close>; a quotient that does not fit it cannot be returned without
  loss, and the call aborts with the arithmetic panic of checked arithmetic (as does a
  zero denominator).
\<close>

definition mulDiv :: "uint256 \<Rightarrow> uint256 \<Rightarrow> uint256 \<Rightarrow> error + uint256" where
  "mulDiv x y denominator =
     (if denominator = 0 then Inl (Panic DIVISION_BY_ZERO)
      else let q = (unat x * unat y) div unat denominator
           in if q < 2 ^ 256 then Inr (of_nat q) else Inl (Panic UNDER_OVERFLOW))"

definition mulmod :: "uint256 \<Rightarrow> uint256 \<Rightarrow> uint256 \<Rightarrow> uint256" where
  "mulmod x y k = (if k = 0 then 0 else of_nat ((unat x * unat y) mod unat k))"

definition checked_add :: "uint256 \<Rightarrow> uint256 \<Rightarrow> error + uint256" where
  "checked_add a b =
     (if unat a + unat b < 2 ^ 256 then Inr (a + b) else Inl (Panic UNDER_OVERFLOW))"

text \<open>
  Modelled from the spec: the overload of \<open>Math.mulDiv\<close> with a rounding mode, not under
  src/ either. It adds one to the quotient when the mode rounds up and the remainder
  (\<open>mulmod\<close>) is not zero; the addition is checked.
\<close>

definition mulDiv_rounding ::
  "uint256 \<Rightarrow> uint256 \<Rightarrow> uint256 \<Rightarrow> Rounding \<Rightarrow> error + uint256" where
  "mulDiv_rounding x y denominator rounding =
     (case mulDiv x y denominator of
        Inl e \<Rightarrow> Inl e
      | Inr q \<Rightarrow>
          checked_add q
            (if unsignedRoundsUp rounding \<and> 0 < mulmod x y denominator then 1 else 0))"

section \<open>The encrypted-arithmetic collaborator\<close>

text \<open>
  \<open>FHE.asEuint64\<close>, \<open>ERC7984._mint\<close> and \<open>ERC7984._transfer\<close> belong to imported
  libraries. The sale contract uses them as opaque capabilities, so they are parameters:
  \<open>'b\<close> is the confidential balance table, \<open>'h\<close> a ciphertext handle. Minting and
  transferring return the new table and the handle of the amount moved. The contract
  mints to itself and transfers from itself to \<open>msg.sender\<close>; the libraries' own
  rejections (a zero address, a sender without a balance) do not arise there.
\<close>

record ('b, 'h) collaborator =
  asEuint64 :: "uint64 \<Rightarrow> 'h"
  erc_mint :: "address \<Rightarrow> 'h \<Rightarrow> 'b \<Rightarrow> 'b \<times> 'h"
  erc_transfer :: "address \<Rightarrow> address \<Rightarrow> 'h \<Rightarrow> 'b \<Rightarrow> 'b \<times> 'h"
  no_balances :: 'b

section \<open>ConfidentialERC7984Token\<close>

text \<open>
  The storage of one token contract, the ether it holds, the events it has emitted and
  the value transfers it has made (receiver and amount, oldest first). \<open>balances\<close> is
  the confidential balance table of \<open>ERC7984\<close>, \<open>balance\<close> is \<open>address(this).balance\<close>
  in wei, \<open>entered\<close> the status flag of \<open>ReentrancyGuard\<close>, \<open>owner\<close> the owner of
  \<open>Ownable\<close>, \<open>this\<close> the contract's own address.
\<close>

record 'b ledger =
  this :: address
  name :: string
  symbol :: string
  contractURI :: string
  owner :: address
  totalSupplyClear :: uint64
  remainingForSaleClear :: uint64
  pricePerTokenWei :: uint256
  entered :: bool
  balances :: 'b
  balance :: nat
  events :: "event list"
  sent :: "(address \<times> uint256) list"

definition TOKEN_BASE :: uint256 where
  "TOKEN_BASE = 1000000"

text \<open>
  The constructor. The base constructors run first: \<open>Ownable\<close> rejects the zero address
  as owner. A freshly created contract holds no ether.
\<close>

definition constructor ::
  "('b, 'h) collaborator \<Rightarrow> address \<Rightarrow> string \<Rightarrow> string \<Rightarrow> uint64 \<Rightarrow> uint256 \<Rightarrow> string \<Rightarrow>
   address \<Rightarrow> error + 'b ledger" where
  "constructor fhe self nm smb totalSupply price uri initialOwner =
     (if initialOwner = 0 then Inl (OwnableInvalidOwner 0)
      else if totalSupply = 0 then Inl InvalidAmount
      else Inr \<lparr> this = self, name = nm, symbol = smb, contractURI = uri,
                 owner = initialOwner,
                 totalSupplyClear = totalSupply,
                 remainingForSaleClear = totalSupply,
                 pricePerTokenWei = price,
                 entered = False,
                 balances = fst (erc_mint fhe self (asEuint64 fhe totalSupply) (no_balances fhe)),
                 balance = 0, events = [], sent = [] \<rparr>)"

text \<open>\<open>quoteBuy\<close> is a \<open>view\<close> function: it reads the state and returns no new one.\<close>

definition quoteBuy :: "'b ledger \<Rightarrow> uint64 \<Rightarrow> error + uint256" where
  "quoteBuy s amount =
     (if amount = 0 then Inr 0
      else if pricePerTokenWei s = 0 then Inr 0
      else mulDiv_rounding (ucast amount) (pricePerTokenWei s) TOKEN_BASE Ceil)"

subsection \<open>Calls, modifiers and value transfers\<close>

text \<open>
  A function body returns its result together with the state it has reached, also when
  it reverts. \<open>external\<close> is the call boundary: a call that reverts leaves the state it
  started from.
\<close>

type_synonym ('s, 'a) body = "'s \<Rightarrow> (error + 'a) \<times> 's"

definition external :: "('s, 'a) body \<Rightarrow> ('s, 'a) body" where
  "external body s =
     (case body s of (Inl e, s') \<Rightarrow> (Inl e, s) | (Inr r, s') \<Rightarrow> (Inr r, s'))"

text \<open>
  Modelled from the spec: the modifier \<open>onlyOwner\<close> of the imported \<open>Ownable\<close> is not
  under src/. The spec describes it as an authorization check at the top of each gated
  operation that compares the caller with the stored owner; another caller fails as
  unauthorized.
\<close>

definition onlyOwner :: "address \<Rightarrow> ('b ledger, 'a) body \<Rightarrow> ('b ledger, 'a) body" where
  "onlyOwner sender body s =
     (if owner s \<noteq> sender then (Inl (OwnableUnauthorizedAccount sender), s) else body s)"

text \<open>
  Modelled from the spec: the modifier \<open>nonReentrant\<close> of the imported
  \<open>ReentrancyGuard\<close> is not under src/. The spec describes it as a busy flag per
  ledger, entered before the body and cleared after it, that rejects a guarded call made
  while another one is in progress.
\<close>

definition nonReentrant :: "('b ledger, 'a) body \<Rightarrow> ('b ledger, 'a) body" where
  "nonReentrant body s =
     (if entered s then (Inl ReentrancyGuardReentrantCall, s)
      else case body (s\<lparr>entered := True\<rparr>) of
             (Inl e, s') \<Rightarrow> (Inl e, s')
           | (Inr r, s') \<Rightarrow> (Inr r, s'\<lparr>entered := False\<rparr>))"

text \<open>A payable call credits \<open>msg.value\<close> to the contract before the body runs.\<close>

definition payable :: "uint256 \<Rightarrow> ('b ledger, 'a) body \<Rightarrow> ('b ledger, 'a) body" where
  "payable v body s = body (s\<lparr>balance := balance s + unat v\<rparr>)"

text \<open>
  \<open>to.call{value: v}("")\<close>. Whether the receiver accepts the transfer is decided outside
  the contract: \<open>accepts\<close> is the environment's answer. A transfer of more than the
  contract holds fails. The receiver's code is not modelled beyond its answer: \<open>buy\<close> and
  \<open>withdraw\<close> are closed to it by \<open>nonReentrant\<close> while the transfer is under way.
\<close>

type_synonym env = "address \<Rightarrow> uint256 \<Rightarrow> bool"

definition call_value :: "env \<Rightarrow> address \<Rightarrow> uint256 \<Rightarrow> 'b ledger \<Rightarrow> bool \<times> 'b ledger" where
  "call_value accepts to v s =
     (if unat v \<le> balance s \<and> accepts to v
      then (True, s\<lparr>balance := balance s - unat v, sent := sent s @ [(to, v)]\<rparr>)
      else (False, s))"

definition emit :: "event \<Rightarrow> 'b ledger \<Rightarrow> 'b ledger" where
  "emit e s = s\<lparr>events := events s @ [e]\<rparr>"

subsection \<open>buy\<close>

text \<open>
  Solidity's \<open>-\<close> and \<open>-=\<close> are checked: a subtraction that would underflow reverts
  with the arithmetic panic.
\<close>

definition checked_sub :: "'a::len word \<Rightarrow> 'a word \<Rightarrow> error + 'a word" where
  "checked_sub a b = (if b \<le> a then Inr (a - b) else Inl (Panic UNDER_OVERFLOW))"

definition buy_body ::
  "('b, 'h) collaborator \<Rightarrow> env \<Rightarrow> address \<Rightarrow> uint256 \<Rightarrow> uint64 \<Rightarrow> ('b ledger, 'h) body" where
  "buy_body fhe accepts sender val amount s =
     (if amount = 0 then (Inl InvalidAmount, s)
      else if remainingForSaleClear s < amount then (Inl SoldOut, s)
      else case quoteBuy s amount of
        Inl e \<Rightarrow> (Inl e, s)
      | Inr requiredWei \<Rightarrow>
          if val < requiredWei then (Inl (InsufficientPayment requiredWei val), s)
          else
            (case checked_sub (remainingForSaleClear s) amount of
               Inl e \<Rightarrow> (Inl e, s)
             | Inr remaining \<Rightarrow>
                 let s1 = s\<lparr>remainingForSaleClear := remaining\<rparr>;
                     moved = erc_transfer fhe (this s1) sender (asEuint64 fhe amount) (balances s1);
                     s2 = s1\<lparr>balances := fst moved\<rparr>;
                     transferred = snd moved
                 in (case checked_sub val requiredWei of
                       Inl e \<Rightarrow> (Inl e, s2)
                     | Inr refund \<Rightarrow>
                         if 0 < refund then
                           (case call_value accepts sender refund s2 of
                              (False, s3) \<Rightarrow> (Inl RefundFailed, s3)
                            | (True, s3) \<Rightarrow>
                                (Inr transferred,
                                 emit (TokenPurchased sender amount requiredWei val) s3))
                         else
                           (Inr transferred,
                            emit (TokenPurchased sender amount requiredWei val) s2))))"

definition buy ::
  "('b, 'h) collaborator \<Rightarrow> env \<Rightarrow> address \<Rightarrow> uint256 \<Rightarrow> uint64 \<Rightarrow> ('b ledger, 'h) body" where
  "buy fhe accepts sender val amount =
     external (payable val (nonReentrant (buy_body fhe accepts sender val amount)))"

subsection \<open>setPricePerTokenWei and withdraw\<close>

definition setPricePerTokenWei_body :: "uint256 \<Rightarrow> ('b ledger, unit) body" where
  "setPricePerTokenWei_body newPricePerTokenWei s =
     (let s1 = emit (PriceUpdated (pricePerTokenWei s) newPricePerTokenWei) s
      in (Inr (), s1\<lparr>pricePerTokenWei := newPricePerTokenWei\<rparr>))"

definition setPricePerTokenWei :: "address \<Rightarrow> uint256 \<Rightarrow> ('b ledger, unit) body" where
  "setPricePerTokenWei sender newPricePerTokenWei =
     external (onlyOwner sender (setPricePerTokenWei_body newPricePerTokenWei))"

definition withdraw_body :: "env \<Rightarrow> address \<Rightarrow> uint256 \<Rightarrow> ('b ledger, unit) body" where
  "withdraw_body accepts to amountWei s =
     (if to = 0 \<or> amountWei = 0 then (Inl InvalidWithdraw, s)
      else if balance s < unat amountWei then (Inl InvalidWithdraw, s)
      else case call_value accepts to amountWei s of
             (False, s1) \<Rightarrow> (Inl InvalidWithdraw, s1)
           | (True, s1) \<Rightarrow> (Inr (), emit (Withdrawn to amountWei) s1))"

definition withdraw :: "env \<Rightarrow> address \<Rightarrow> address \<Rightarrow> uint256 \<Rightarrow> ('b ledger, unit) body" where
  "withdraw accepts sender to amountWei =
     external (onlyOwner sender (nonReentrant (withdraw_body accepts to amountWei)))"

subsection \<open>Reachable states of one token contract\<close>

text \<open>
  A contract starts from its constructor and changes by calls of its functions, from any
  sender, with any arguments and any answer of the environment. The entry points
  inherited from \<open>ERC7984\<close> and \<open>Ownable\<close> change only the confidential balance table
  and the owner, and ether can be forced into any address.
\<close>

inductive reachable :: "('b, 'h) collaborator \<Rightarrow> 'b ledger \<Rightarrow> bool"
  for fhe :: "('b, 'h) collaborator" where
  r_init: "constructor fhe self nm smb issued price uri initialOwner = Inr s \<Longrightarrow> reachable fhe s"
| r_buy: "reachable fhe s \<Longrightarrow> buy fhe accepts sender val amount s = (r, s') \<Longrightarrow> reachable fhe s'"
| r_setPrice: "reachable fhe s \<Longrightarrow> setPricePerTokenWei sender p s = (u, s') \<Longrightarrow> reachable fhe s'"
| r_withdraw: "reachable fhe s \<Longrightarrow> withdraw accepts sender to w s = (u, s') \<Longrightarrow> reachable fhe s'"
| r_inherited: "reachable fhe s \<Longrightarrow>
     reachable fhe (s\<lparr>balances := b, owner := ow, balance := balance s + n\<rparr>)"

section \<open>ConfidentialTokenFactory\<close>

text \<open>
  The factory's two lists, the events it has emitted, and the contracts that exist
  (\<open>deployed\<close>): \<open>new\<close> fails when the address of the new contract is already in use.
  That address is computed by the platform; here it is an argument of the call.
\<close>

record 'b factory =
  allTokens :: "address list"
  tokensByCreator :: "address \<Rightarrow> address list"
  deployed :: "address \<rightharpoonup> 'b ledger"
  created :: "factory_event list"

definition new_token ::
  "('b, 'h) collaborator \<Rightarrow> address \<Rightarrow> string \<Rightarrow> string \<Rightarrow> uint64 \<Rightarrow> uint256 \<Rightarrow> string \<Rightarrow>
   address \<Rightarrow> ('b factory, address) body" where
  "new_token fhe addr nm smb issued price uri initialOwner f =
     (case deployed f addr of
        Some c \<Rightarrow> (Inl (CreateCollision addr), f)
      | None \<Rightarrow>
         (case constructor fhe addr nm smb issued price uri initialOwner of
            Inl e \<Rightarrow> (Inl e, f)
          | Inr c \<Rightarrow> (Inr addr, f\<lparr>deployed := (deployed f)(addr \<mapsto> c)\<rparr>)))"

definition createToken_body ::
  "('b, 'h) collaborator \<Rightarrow> address \<Rightarrow> address \<Rightarrow> string \<Rightarrow> string \<Rightarrow> uint64 \<Rightarrow> uint256 \<Rightarrow>
   ('b factory, address) body" where
  "createToken_body fhe addr sender nm smb issued price f =
     (case new_token fhe addr nm smb issued price '''' sender f of
        (Inl e, f1) \<Rightarrow> (Inl e, f1)
      | (Inr token, f1) \<Rightarrow>
          let f2 = f1\<lparr>allTokens := allTokens f1 @ [token]\<rparr>;
              f3 = f2\<lparr>tokensByCreator :=
                        (tokensByCreator f2)(sender := tokensByCreator f2 sender @ [token])\<rparr>;
              f4 = f3\<lparr>created := created f3 @ [TokenCreated sender token nm smb issued price]\<rparr>
          in (Inr token, f4))"

definition createToken ::
  "('b, 'h) collaborator \<Rightarrow> address \<Rightarrow> address \<Rightarrow> string \<Rightarrow> string \<Rightarrow> uint64 \<Rightarrow> uint256 \<Rightarrow>
   ('b factory, address) body" where
  "createToken fhe addr sender nm smb issued price =
     external (createToken_body fhe addr sender nm smb issued price)"

definition allTokensLength :: "'b factory \<Rightarrow> nat" where
  "allTokensLength f = length (allTokens f)"

definition getAllTokens :: "'b factory \<Rightarrow> address list" where
  "getAllTokens f = allTokens f"

definition getTokensByCreator :: "'b factory \<Rightarrow> address \<Rightarrow> address list" where
  "getTokensByCreator f creator = tokensByCreator f creator"

text \<open>
  A factory starts with empty lists, in a world that may already hold contracts. It
  changes by \<open>createToken\<close>; the rest of the world only adds contracts or changes the
  ones that exist.
\<close>

inductive f_reachable :: "('b, 'h) collaborator \<Rightarrow> 'b factory \<Rightarrow> bool"
  for fhe :: "('b, 'h) collaborator" where
  f_init: "f_reachable fhe \<lparr> allTokens = [], tokensByCreator = (\<lambda>c. []), deployed = d,
                               created = [] \<rparr>"
| f_create: "f_reachable fhe f \<Longrightarrow> createToken fhe addr sender nm smb issued price f = (r, f')
               \<Longrightarrow> f_reachable fhe f'"
| f_world: "f_reachable fhe f \<Longrightarrow> dom (deployed f) \<subseteq> dom d \<Longrightarrow> f_reachable fhe (f\<lparr>deployed := d\<rparr>)"

section \<open>A cleartext collaborator and sample states\<close>

text \<open>
  An instance of the collaborator for running the model: balances in the clear, a handle
  is its clear value, and a transfer of more than the sender holds moves nothing.
\<close>

definition clear_transfer ::
  "address \<Rightarrow> address \<Rightarrow> uint64 \<Rightarrow> (address \<Rightarrow> uint64) \<Rightarrow> (address \<Rightarrow> uint64) \<times> uint64" where
  "clear_transfer src dst h b =
     (let moved = (if h \<le> b src then h else 0);
          b1 = b(src := b src - moved)
      in (b1(dst := b1 dst + moved), moved))"

definition clear_mint ::
  "address \<Rightarrow> uint64 \<Rightarrow> (address \<Rightarrow> uint64) \<Rightarrow> (address \<Rightarrow> uint64) \<times> uint64" where
  "clear_mint dst h b = (b(dst := b dst + h), h)"

definition clear_fhe :: "(address \<Rightarrow> uint64, uint64) collaborator" where
  "clear_fhe = \<lparr> asEuint64 = (\<lambda>v. v), erc_mint = clear_mint, erc_transfer = clear_transfer,
                 no_balances = (\<lambda>a. 0) \<rparr>"

text \<open>
  The token of the repository's test: ten tokens of supply at 0.001 ether each, created
  by account \<open>0xC0\<close> at address \<open>0x70\<close>.
\<close>

definition test_token :: "(address \<Rightarrow> uint64) ledger" where
  "test_token =
     \<lparr> this = 0x70, name = ''MyToken'', symbol = ''MTK'', contractURI = '''',
       owner = 0xC0,
       totalSupplyClear = 10000000, remainingForSaleClear = 10000000,
       pricePerTokenWei = 1000000000000000,
       entered = False,
       balances = (\<lambda>a. 0)(0x70 := 10000000),
       balance = 0, events = [], sent = [] \<rparr>"

definition everyone :: env where
  "everyone to v = True"

definition nobody :: env where
  "nobody to v = False"

text \<open>
  The state a successful \<open>buy\<close> of \<open>amount\<close> at the quote \<open>q\<close> with payment \<open>val\<close>
  leads to, written out once so that the results below can name it: the counter is
  decremented, the confidential table is the collaborator's, the contract keeps \<open>q\<close>
  wei, the purchase is logged, and a refund is recorded when one was sent.
\<close>

definition purchased ::
  "('b, 'h) collaborator \<Rightarrow> address \<Rightarrow> uint256 \<Rightarrow> uint64 \<Rightarrow> uint256 \<Rightarrow> 'b ledger \<Rightarrow> 'b ledger" where
  "purchased fhe sender val amount q s =
     s\<lparr>remainingForSaleClear := remainingForSaleClear s - amount,
       balances := fst (erc_transfer fhe (this s) sender (asEuint64 fhe amount) (balances s)),
       balance := balance s + unat q,
       events := events s @ [TokenPurchased sender amount q val],
       sent := sent s @ (if q < val then [(sender, val - q)] else [])\<rparr>"

text \<open>
  The test's token after account \<open>0xB0\<close> has bought two tokens for exactly the quote,
  and the same token created with a price of zero.
\<close>

definition sold_token :: "(address \<Rightarrow> uint64) ledger" where
  "sold_token =
     \<lparr> this = 0x70, name = ''MyToken'', symbol = ''MTK'', contractURI = '''',
       owner = 0xC0,
       totalSupplyClear = 10000000, remainingForSaleClear = 8000000,
       pricePerTokenWei = 1000000000000000,
       entered = False,
       balances = (\<lambda>a. 0)(0x70 := 8000000, 0xB0 := 2000000),
       balance = 2000000000000000,
       events = [TokenPurchased 0xB0 2000000 2000000000000000 2000000000000000],
       sent = [] \<rparr>"

definition free_token :: "(address \<Rightarrow> uint64) ledger" where
  "free_token = test_token\<lparr>pricePerTokenWei := 0\<rparr>"

text \<open>A factory before and after the test's \<open>createToken\<close>.\<close>

definition empty_factory :: "(address \<Rightarrow> uint64) factory" where
  "empty_factory = \<lparr> allTokens = [], tokensByCreator = (\<lambda>c. []), deployed = Map.empty,
                      created = [] \<rparr>"

definition one_token_factory :: "(address \<Rightarrow> uint64) factory" where
  "one_token_factory =
     \<lparr> allTokens = [0x70], tokensByCreator = (\<lambda>c. [])(0xC0 := [0x70]),
       deployed = [0x70 \<mapsto> test_token],
       created = [TokenCreated 0xC0 0x70 ''MyToken'' ''MTK'' 10000000 1000000000000000] \<rparr>"

section \<open>Arithmetic of the quote\<close>

lemma ceil_div_split:
  fixes P B :: nat
  assumes "0 < B"
  shows "(P + (B - 1)) div B = P div B + (if P mod B = 0 then 0 else 1)"
proof -
  define k where "k = P div B"
  define r where "r = P mod B"
  have P: "P = B * k + r" by (simp add: k_def r_def)
  have lt: "r < B" using assms by (simp add: r_def)
  show ?thesis
  proof (cases "r = 0")
    case True
    have "(B * k + (B - 1)) div B = k + (B - 1) div B"
      using assms div_mult_self4 [of B k "B - 1"] by simp
    moreover have "(B - 1) div B = 0" using assms by simp
    ultimately have "(P + (B - 1)) div B = k" using True P by simp
    then show ?thesis using True by (simp add: k_def [symmetric] r_def [symmetric])
  next
    case False
    then have e: "B * k + r + (B - 1) = B * (k + 1) + (r - 1)"
      using assms by (simp add: algebra_simps)
    have "(P + (B - 1)) div B = (B * (k + 1) + (r - 1)) div B"
      by (simp only: P e)
    also have "\<dots> = (k + 1) + (r - 1) div B"
      using assms div_mult_self4 [of B "k + 1" "r - 1"] by simp
    also have "(r - 1) div B = 0" using lt by simp
    finally have "(P + (B - 1)) div B = k + 1" by simp
    then show ?thesis using False by (simp add: k_def [symmetric] r_def [symmetric])
  qed
qed

lemma ceil_bounds:
  fixes P :: nat
  assumes "0 < P" "q = (P + 999999) div 1000000"
  shows "1 \<le> q \<and> P \<le> q * 1000000 \<and> (q - 1) * 1000000 < P"
proof -
  have "(P + 999999) div 1000000 * 1000000 + (P + 999999) mod 1000000 = P + 999999"
    by simp
  moreover have "(P + 999999) mod 1000000 < 1000000" by simp
  ultimately show ?thesis using assms by (simp add: diff_mult_distrib) arith
qed

lemma unat_TOKEN_BASE: "unat TOKEN_BASE = 1000000"
  by (simp add: TOKEN_BASE_def)

lemma unat_ucast_amount: "unat (ucast (a :: uint64) :: uint256) = unat a"
proof -
  have "unat a < 2 ^ 64" using unsigned_less [of a] by simp
  also have "\<dots> < (2::nat) ^ 256" by simp
  finally have "take_bit 256 (unat a) = unat a" by (simp add: take_bit_nat_eq_self)
  then show ?thesis by (simp add: unsigned_ucast_eq)
qed

lemma unat_of_nat_256: "n < 2 ^ 256 \<Longrightarrow> unat (of_nat n :: uint256) = n"
  by (simp add: unat_of_nat take_bit_nat_eq_self)

lemma mulmod_pos:
  assumes "k \<noteq> 0"
  shows "(0 < mulmod x y k) = ((unat x * unat y) mod unat k \<noteq> 0)"
proof -
  have k0: "0 < unat k" using assms by (simp add: unat_gt_0)
  have "(unat x * unat y) mod unat k < unat k" using k0 by simp
  also have "unat k < 2 ^ 256" using unsigned_less [of k] by simp
  finally have u: "unat (of_nat ((unat x * unat y) mod unat k) :: uint256)
      = (unat x * unat y) mod unat k"
    by (rule unat_of_nat_256)
  have "(0 < mulmod x y k) = (0 < unat (mulmod x y k))" by (simp add: word_less_nat_alt)
  then show ?thesis using assms u by (simp add: mulmod_def)
qed

text \<open>
  With a nonzero denominator, rounding up gives the ceiling of the exact quotient when
  that fits 256 bits, and the overflow panic when it does not.
\<close>

lemma mulDiv_rounding_Ceil:
  assumes "d \<noteq> 0"
  shows "mulDiv_rounding x y d Ceil =
     (if (unat x * unat y + (unat d - 1)) div unat d < 2 ^ 256
      then Inr (of_nat ((unat x * unat y + (unat d - 1)) div unat d))
      else Inl (Panic UNDER_OVERFLOW))"
proof -
  define P where "P = unat x * unat y"
  define B where "B = unat d"
  have B0: "0 < B" using assms by (simp add: B_def unat_gt_0)
  have split: "(P + (B - 1)) div B = P div B + (if P mod B = 0 then 0 else 1)"
    using B0 by (rule ceil_div_split)
  show ?thesis
  proof (cases "P div B < 2 ^ 256")
    case False
    then have "\<not> (P + (B - 1)) div B < 2 ^ 256" using split by simp
    with False show ?thesis
      using assms by (simp add: mulDiv_rounding_def mulDiv_def P_def B_def)
  next
    case True
    then have u: "unat (of_nat (P div B) :: uint256) = P div B" by (rule unat_of_nat_256)
    show ?thesis
    proof (cases "P mod B = 0")
      case z: True
      then show ?thesis
        using assms True split u mulmod_pos [OF assms, of x y]
        by (simp add: mulDiv_rounding_def mulDiv_def checked_add_def unsignedRoundsUp_def
            P_def [symmetric] B_def [symmetric])
    next
      case nz: False
      then show ?thesis
        using assms True split u mulmod_pos [OF assms, of x y]
        by (simp add: mulDiv_rounding_def mulDiv_def checked_add_def unsignedRoundsUp_def
            P_def [symmetric] B_def [symmetric])
    qed
  qed
qed

lemma quoteBuy_eq:
  assumes "amount \<noteq> 0" "pricePerTokenWei s \<noteq> 0"
  shows "quoteBuy s amount =
     (if (unat amount * unat (pricePerTokenWei s) + 999999) div 1000000 < 2 ^ 256
      then Inr (of_nat ((unat amount * unat (pricePerTokenWei s) + 999999) div 1000000))
      else Inl (Panic UNDER_OVERFLOW))"
proof -
  have d: "TOKEN_BASE \<noteq> 0" by (simp add: TOKEN_BASE_def)
  show ?thesis
    using assms
    by (simp add: quoteBuy_def mulDiv_rounding_Ceil [OF d] unat_ucast_amount unat_TOKEN_BASE)
qed

lemma quoteBuy_zero: "amount = 0 \<or> pricePerTokenWei s = 0 \<Longrightarrow> quoteBuy s amount = Inr 0"
  by (auto simp: quoteBuy_def)

lemmas quote_eval = quoteBuy_def mulDiv_rounding_def mulDiv_def mulmod_def checked_add_def
  TOKEN_BASE_def unsignedRoundsUp_def

section \<open>The quote (claims C1 and C8)\<close>

text \<open>
  C1, as stated, at a concrete input: with the price at the largest 256-bit value, the
  quote for 1000001 base units does not return the ceiling; the call aborts with the
  overflow panic, because the ceiling does not fit the 256-bit result.
\<close>

theorem quoteBuy_every_price_counterexample:
  "quoteBuy
     (test_token\<lparr>pricePerTokenWei :=
        115792089237316195423570985008687907853269984665640564039457584007913129639935\<rparr>)
     1000001 = Inl (Panic UNDER_OVERFLOW)"
  by (simp add: quote_eval test_token_def)

text \<open>
  C1, amended: \<open>quoteBuy\<close> returns 0 when the amount or the price is 0. Otherwise, when
  the ceiling of \<open>amount * pricePerTokenWei / 1000000\<close> fits 256 bits, it returns exactly
  that ceiling \<open>q\<close>, computed without loss, so that \<open>q * 1000000\<close> is at least
  \<open>amount * pricePerTokenWei\<close> and \<open>(q - 1) * 1000000\<close> is below it; when the ceiling
  does not fit, the call aborts with the overflow panic. \<open>quoteBuy\<close> returns no state,
  so it has no side effect, and its result depends on the state through
  \<open>pricePerTokenWei\<close> only.
\<close>

theorem quoteBuy_ceil:
  "(amount = 0 \<or> pricePerTokenWei s = 0 \<longrightarrow> quoteBuy s amount = Inr 0) \<and>
   (amount \<noteq> 0 \<and> pricePerTokenWei s \<noteq> 0 \<and>
    (unat amount * unat (pricePerTokenWei s) + 999999) div 1000000 < 2 ^ 256 \<longrightarrow>
      (\<exists>q. quoteBuy s amount = Inr q \<and>
           unat q = (unat amount * unat (pricePerTokenWei s) + 999999) div 1000000 \<and>
           unat amount * unat (pricePerTokenWei s) \<le> unat q * 1000000 \<and>
           (unat q - 1) * 1000000 < unat amount * unat (pricePerTokenWei s))) \<and>
   (amount \<noteq> 0 \<and> pricePerTokenWei s \<noteq> 0 \<and>
    2 ^ 256 \<le> (unat amount * unat (pricePerTokenWei s) + 999999) div 1000000 \<longrightarrow>
      quoteBuy s amount = Inl (Panic UNDER_OVERFLOW)) \<and>
   (pricePerTokenWei t = pricePerTokenWei s \<longrightarrow> quoteBuy t amount = quoteBuy s amount)"
proof (intro conjI impI)
  assume "amount = 0 \<or> pricePerTokenWei s = 0"
  then show "quoteBuy s amount = Inr 0" by (rule quoteBuy_zero)
next
  assume h: "amount \<noteq> 0 \<and> pricePerTokenWei s \<noteq> 0 \<and>
    (unat amount * unat (pricePerTokenWei s) + 999999) div 1000000 < 2 ^ 256"
  define P where "P = unat amount * unat (pricePerTokenWei s)"
  define q :: uint256 where "q = of_nat ((P + 999999) div 1000000)"
  have P0: "0 < P" using h by (simp add: P_def unat_gt_0)
  have uq: "unat q = (P + 999999) div 1000000"
    using h unfolding q_def P_def by (intro unat_of_nat_256) simp
  have "quoteBuy s amount = Inr q"
    using h quoteBuy_eq [of amount s] by (simp add: q_def P_def)
  moreover note uq
  moreover have "P \<le> unat q * 1000000 \<and> (unat q - 1) * 1000000 < P"
    using ceil_bounds [OF P0 uq] by simp
  ultimately show "\<exists>q. quoteBuy s amount = Inr q \<and>
           unat q = (unat amount * unat (pricePerTokenWei s) + 999999) div 1000000 \<and>
           unat amount * unat (pricePerTokenWei s) \<le> unat q * 1000000 \<and>
           (unat q - 1) * 1000000 < unat amount * unat (pricePerTokenWei s)"
    unfolding P_def by blast
next
  assume "amount \<noteq> 0 \<and> pricePerTokenWei s \<noteq> 0 \<and>
    2 ^ 256 \<le> (unat amount * unat (pricePerTokenWei s) + 999999) div 1000000"
  then show "quoteBuy s amount = Inl (Panic UNDER_OVERFLOW)"
    using quoteBuy_eq [of amount s] by simp
next
  assume "pricePerTokenWei t = pricePerTokenWei s"
  then show "quoteBuy t amount = quoteBuy s amount" by (simp add: quoteBuy_def)
qed

text \<open>
  The three cases of C1 at concrete inputs: amount 0; the quote of the repository's test
  (2 tokens at 0.001 ether); and a price of \<open>2 ^ 250\<close> with an amount of \<open>2 ^ 40\<close>.
\<close>

theorem quoteBuy_ceil_witness:
  "quoteBuy test_token 0 = Inr 0 \<and>
   (\<exists>q. quoteBuy test_token 2000000 = Inr q \<and> unat q = 2000000000000000) \<and>
   quoteBuy (test_token\<lparr>pricePerTokenWei := 2 ^ 250\<rparr>) (2 ^ 40) = Inl (Panic UNDER_OVERFLOW) \<and>
   quoteBuy sold_token 2000000 = quoteBuy test_token 2000000"
  using quoteBuy_ceil [of 0 test_token] quoteBuy_ceil [of 2000000 test_token sold_token]
    quoteBuy_ceil [of "2 ^ 40" "test_token\<lparr>pricePerTokenWei := 2 ^ 250\<rparr>"]
  by (auto simp: test_token_def sold_token_def)

text \<open>
  C8, as stated, at a concrete input: with a price of \<open>2 ^ 255\<close> the largest amount has
  no quote at all, so the quote is not a value of at least 1; the call aborts.
\<close>

theorem quoteBuy_at_least_one_counterexample:
  "(1::uint64) \<le> 18446744073709551615 \<and>
   1 \<le> pricePerTokenWei (test_token\<lparr>pricePerTokenWei := 2 ^ 255\<rparr>) \<and>
   quoteBuy (test_token\<lparr>pricePerTokenWei := 2 ^ 255\<rparr>) 18446744073709551615
     = Inl (Panic UNDER_OVERFLOW)"
  by (simp add: quote_eval test_token_def)

text \<open>
  C8, amended: for a nonzero amount and a nonzero price \<open>quoteBuy\<close> never returns 0.
  When the ceiling of \<open>amount * pricePerTokenWei / 1000000\<close> fits 256 bits it returns a
  quote of at least 1 (exactly 1 when \<open>amount * pricePerTokenWei < 1000000\<close>);
  otherwise the call aborts and there is no quote.
\<close>

theorem quoteBuy_never_free:
  assumes "amount \<noteq> 0" and "pricePerTokenWei s \<noteq> 0"
  shows "quoteBuy s amount \<noteq> Inr 0 \<and>
         ((unat amount * unat (pricePerTokenWei s) + 999999) div 1000000 < 2 ^ 256 \<longrightarrow>
            (\<exists>q. quoteBuy s amount = Inr q \<and> 1 \<le> q)) \<and>
         (unat amount * unat (pricePerTokenWei s) < 1000000 \<longrightarrow> quoteBuy s amount = Inr 1)"
proof -
  define P where "P = unat amount * unat (pricePerTokenWei s)"
  define c where "c = (P + 999999) div 1000000"
  have P0: "0 < P" using assms by (simp add: P_def unat_gt_0)
  have c1: "1 \<le> c" using ceil_bounds [OF P0 c_def] by simp
  have eq: "quoteBuy s amount =
      (if c < 2 ^ 256 then Inr (of_nat c) else Inl (Panic UNDER_OVERFLOW))"
    using quoteBuy_eq [OF assms] by (simp add: c_def P_def)
  have pos: "c < 2 ^ 256 \<Longrightarrow> (1::uint256) \<le> of_nat c"
  proof -
    assume lt: "c < 2 ^ 256"
    have "unat (of_nat c :: uint256) = c" using lt by (rule unat_of_nat_256)
    then show ?thesis using c1 by (simp add: word_le_nat_alt)
  qed
  have nz: "quoteBuy s amount \<noteq> Inr 0"
  proof (cases "c < 2 ^ 256")
    case True
    then have "(of_nat c :: uint256) \<noteq> 0" using pos by auto
    then show ?thesis using eq True by simp
  next
    case False
    then show ?thesis using eq by simp
  qed
  have small: "P < 1000000 \<Longrightarrow> c = 1" using P0 by (simp add: c_def)
  show ?thesis
  proof (intro conjI impI)
    show "quoteBuy s amount \<noteq> Inr 0" by (rule nz)
  next
    assume "(unat amount * unat (pricePerTokenWei s) + 999999) div 1000000 < 2 ^ 256"
    then have "c < 2 ^ 256" by (simp add: c_def P_def)
    then show "\<exists>q. quoteBuy s amount = Inr q \<and> 1 \<le> q" using eq pos by simp
  next
    assume "unat amount * unat (pricePerTokenWei s) < 1000000"
    then have "c = 1" using small by (simp add: P_def)
    then show "quoteBuy s amount = Inr 1" using eq by simp
  qed
qed

text \<open>One base unit at a price of one wei per token costs one wei.\<close>

theorem quoteBuy_never_free_witness:
  "(1::uint64) \<noteq> 0 \<and> pricePerTokenWei (test_token\<lparr>pricePerTokenWei := 1\<rparr>) \<noteq> 0 \<and>
   quoteBuy (test_token\<lparr>pricePerTokenWei := 1\<rparr>) 1 = Inr 1"
  using quoteBuy_never_free [of 1 "test_token\<lparr>pricePerTokenWei := 1\<rparr>"]
  by (simp add: test_token_def)

section \<open>What the calls do\<close>

text \<open>A call that reverts returns the state it was made in.\<close>

lemma external_Inl: "external body s = (Inl e, s') \<Longrightarrow> s' = s"
  by (auto simp: external_def split: prod.splits sum.splits)

lemma quoteBuy_frame [simp]:
  "quoteBuy (s\<lparr>entered := b\<rparr>) amount = quoteBuy s amount"
  "quoteBuy (s\<lparr>balance := n\<rparr>) amount = quoteBuy s amount"
  by (simp_all add: quoteBuy_def)

lemma unat_refund: "(q::uint256) \<le> v \<Longrightarrow> unat (v - q) = unat v - unat q"
  by (simp add: unat_sub)

lemma refund_pos: "(0 < (v::uint256) - q) = (v \<noteq> q)"
  by (simp add: word_neq_0_conv [symmetric])

text \<open>
  \<open>buy\<close> when no guarded call is in progress, with the modifiers and the call boundary
  worked through: each check in the order of the source, then the outcome.
\<close>

lemma buy_unfold:
  assumes "\<not> entered s"
  shows "buy fhe accepts sender val amount s =
    (if amount = 0 then (Inl InvalidAmount, s)
     else if remainingForSaleClear s < amount then (Inl SoldOut, s)
     else case quoteBuy s amount of
        Inl e \<Rightarrow> (Inl e, s)
      | Inr q \<Rightarrow>
          if val < q then (Inl (InsufficientPayment q val), s)
          else if q < val \<and> \<not> accepts sender (val - q) then (Inl RefundFailed, s)
          else (Inr (snd (erc_transfer fhe (this s) sender (asEuint64 fhe amount) (balances s))),
                purchased fhe sender val amount q s))"
proof (cases "amount = 0 \<or> remainingForSaleClear s < amount")
  case True
  then show ?thesis
    using assms
    by (auto simp: buy_def external_def payable_def nonReentrant_def buy_body_def)
next
  case False
  then have a0: "amount \<noteq> 0" and nl: "\<not> remainingForSaleClear s < amount" by simp_all
  have cs: "checked_sub (remainingForSaleClear s) amount = Inr (remainingForSaleClear s - amount)"
    using nl by (simp add: checked_sub_def not_less)
  show ?thesis
  proof (cases "quoteBuy s amount")
    case (Inl e)
    then show ?thesis
      using assms a0 nl
      by (simp add: buy_def external_def payable_def nonReentrant_def buy_body_def)
  next
    case (Inr q)
    show ?thesis
    proof (cases "val < q")
      case True
      then show ?thesis
        using assms Inr a0 nl
        by (simp add: buy_def external_def payable_def nonReentrant_def buy_body_def)
    next
      case nv: False
      then have le: "q \<le> val" by simp
      have cv: "checked_sub val q = Inr (val - q)" using le by (simp add: checked_sub_def)
      have u: "unat (val - q) = unat val - unat q" using le by (rule unat_refund)
      have uv: "unat q \<le> unat val" using le by (simp add: word_le_nat_alt)
      have lt: "(q < val) = (val \<noteq> q)" using le by auto
      have fits: "unat val - unat q \<le> balance s + unat val" by simp
      show ?thesis
        using assms Inr a0 nl nv cs cv u uv lt fits
        by (simp add: buy_def external_def payable_def nonReentrant_def buy_body_def Let_def
            call_value_def emit_def purchased_def refund_pos)
    qed
  qed
qed

lemma setPricePerTokenWei_unfold:
  "setPricePerTokenWei sender p s =
     (if owner s \<noteq> sender then (Inl (OwnableUnauthorizedAccount sender), s)
      else (Inr (), s\<lparr>events := events s @ [PriceUpdated (pricePerTokenWei s) p],
                       pricePerTokenWei := p\<rparr>))"
  by (simp add: setPricePerTokenWei_def external_def onlyOwner_def
      setPricePerTokenWei_body_def emit_def Let_def)

lemma withdraw_unfold:
  "withdraw accepts sender to w s =
     (if owner s \<noteq> sender then (Inl (OwnableUnauthorizedAccount sender), s)
      else if entered s then (Inl ReentrancyGuardReentrantCall, s)
      else if to = 0 \<or> w = 0 then (Inl InvalidWithdraw, s)
      else if balance s < unat w then (Inl InvalidWithdraw, s)
      else if \<not> accepts to w then (Inl InvalidWithdraw, s)
      else (Inr (), s\<lparr>balance := balance s - unat w, sent := sent s @ [(to, w)],
                       events := events s @ [Withdrawn to w]\<rparr>))"
  by (simp add: withdraw_def external_def onlyOwner_def nonReentrant_def withdraw_body_def
      call_value_def emit_def)

lemma constructor_Inr:
  "constructor fhe self nm smb issued price uri initialOwner = Inr s \<Longrightarrow>
     initialOwner \<noteq> 0 \<and> issued \<noteq> 0 \<and> totalSupplyClear s = issued \<and>
     remainingForSaleClear s = issued \<and> pricePerTokenWei s = price \<and> \<not> entered s \<and>
     owner s = initialOwner \<and> this s = self"
  by (auto simp: constructor_def split: if_splits)

lemma purchased_fields [simp]:
  "remainingForSaleClear (purchased fhe sender val amount q s) = remainingForSaleClear s - amount"
  "totalSupplyClear (purchased fhe sender val amount q s) = totalSupplyClear s"
  "pricePerTokenWei (purchased fhe sender val amount q s) = pricePerTokenWei s"
  "entered (purchased fhe sender val amount q s) = entered s"
  "owner (purchased fhe sender val amount q s) = owner s"
  "this (purchased fhe sender val amount q s) = this s"
  "balance (purchased fhe sender val amount q s) = balance s + unat q"
  "balances (purchased fhe sender val amount q s) =
     fst (erc_transfer fhe (this s) sender (asEuint64 fhe amount) (balances s))"
  "events (purchased fhe sender val amount q s) = events s @ [TokenPurchased sender amount q val]"
  "sent (purchased fhe sender val amount q s) =
     sent s @ (if q < val then [(sender, val - q)] else [])"
  by (simp_all add: purchased_def)

lemma buy_Inl: "buy fhe accepts sender val amount s = (Inl e, s') \<Longrightarrow> s' = s"
  unfolding buy_def by (rule external_Inl)

lemma buy_Inr:
  assumes "\<not> entered s" and "buy fhe accepts sender val amount s = (Inr h, s')"
  shows "\<exists>q. amount \<noteq> 0 \<and> amount \<le> remainingForSaleClear s \<and> quoteBuy s amount = Inr q \<and>
             q \<le> val \<and> (q < val \<longrightarrow> accepts sender (val - q)) \<and>
             h = snd (erc_transfer fhe (this s) sender (asEuint64 fhe amount) (balances s)) \<and>
             s' = purchased fhe sender val amount q s"
proof (cases "quoteBuy s amount")
  case (Inl e)
  then show ?thesis
    using assms(2) unfolding buy_unfold [OF assms(1)] by (simp split: if_splits)
next
  case (Inr q)
  then show ?thesis
    using assms(2) unfolding buy_unfold [OF assms(1)]
    by (auto split: if_splits simp: not_less)
qed

text \<open>
  Between calls the guard flag is clear, the counter never exceeds the supply, and the
  supply is positive.
\<close>

lemma reachable_inv:
  "reachable fhe s \<Longrightarrow>
     \<not> entered s \<and> remainingForSaleClear s \<le> totalSupplyClear s \<and> totalSupplyClear s \<noteq> 0"
proof (induction rule: reachable.induct)
  case (r_init self nm smb total price uri initialOwner s)
  then show ?case using constructor_Inr [of fhe self nm smb total price uri initialOwner s] by simp
next
  case (r_buy s accepts sender val amount r s')
  then have ne: "\<not> entered s" by simp
  show ?case
  proof (cases r)
    case (Inl e)
    then have "s' = s" using r_buy.hyps(2) buy_Inl by blast
    then show ?thesis using r_buy.IH by simp
  next
    case (Inr h)
    then obtain q where a: "amount \<le> remainingForSaleClear s"
      and s': "s' = purchased fhe sender val amount q s"
      using buy_Inr [OF ne, of fhe accepts sender val amount h s'] r_buy.hyps(2) by blast
    have "remainingForSaleClear s - amount \<le> remainingForSaleClear s"
      using a by (simp add: word_sub_le)
    then have "remainingForSaleClear s - amount \<le> totalSupplyClear s"
      using r_buy.IH by (auto intro: order_trans)
    then show ?thesis using s' r_buy.IH by simp
  qed
next
  case (r_setPrice s sender p u s')
  then show ?case by (auto simp: setPricePerTokenWei_unfold split: if_splits)
next
  case (r_withdraw s accepts sender to w u s')
  then show ?case by (auto simp: withdraw_unfold split: if_splits)
next
  case (r_inherited s b ow n)
  then show ?case by simp
qed

lemma reachable_not_entered: "reachable fhe s \<Longrightarrow> \<not> entered s"
  using reachable_inv by blast

section \<open>The sample states are states of the program\<close>

lemma test_token_constructed:
  "constructor clear_fhe 0x70 ''MyToken'' ''MTK'' 10000000 1000000000000000 '''' 0xC0
     = Inr test_token"
  by (simp add: constructor_def clear_fhe_def clear_mint_def test_token_def)

lemma test_token_reachable: "reachable clear_fhe test_token"
  using test_token_constructed by (rule r_init)

lemma test_quote: "quoteBuy test_token 2000000 = Inr 2000000000000000"
  by (simp add: quote_eval test_token_def)

lemma test_buy:
  "buy clear_fhe everyone 0xB0 2000000000000000 2000000 test_token = (Inr 2000000, sold_token)"
proof -
  have ne: "\<not> entered test_token" by (simp add: test_token_def)
  have r: "\<not> remainingForSaleClear test_token < 2000000" by (simp add: test_token_def)
  have h: "snd (erc_transfer clear_fhe (this test_token) 0xB0 (asEuint64 clear_fhe 2000000)
      (balances test_token)) = 2000000"
    by (simp add: clear_fhe_def clear_transfer_def test_token_def)
  have s: "purchased clear_fhe 0xB0 2000000000000000 2000000 2000000000000000 test_token
      = sold_token"
    by (simp add: purchased_def clear_fhe_def clear_transfer_def test_token_def sold_token_def)
  show ?thesis
    unfolding buy_unfold [OF ne] using r h s by (simp add: test_quote)
qed

lemma sold_token_reachable: "reachable clear_fhe sold_token"
  using test_token_reachable test_buy by (rule r_buy)

section \<open>Atomicity of buy (claim C2)\<close>

text \<open>
  When the refund is rejected, the body of \<open>buy\<close> has already decremented the counter
  and made the confidential transfer.
\<close>

lemma payable_guarded_buy_refund_fails:
  assumes "\<not> entered s" "amount \<noteq> 0" "amount \<le> remainingForSaleClear s"
    "quoteBuy s amount = Inr q" "q < val" "\<not> accepts sender (val - q)"
  shows "fst (payable val (nonReentrant (buy_body fhe accepts sender val amount)) s)
           = Inl RefundFailed"
    and "remainingForSaleClear
           (snd (payable val (nonReentrant (buy_body fhe accepts sender val amount)) s))
           = remainingForSaleClear s - amount"
proof -
  have nl: "\<not> remainingForSaleClear s < amount" using assms(3) by simp
  have nv: "\<not> val < q" using assms(5) by simp
  have rp: "0 < val - q" using assms(5) by (simp add: refund_pos)
  have cs: "checked_sub (remainingForSaleClear s) amount = Inr (remainingForSaleClear s - amount)"
    using assms(3) by (simp add: checked_sub_def)
  have cv: "checked_sub val q = Inr (val - q)" using assms(5) by (simp add: checked_sub_def)
  show "fst (payable val (nonReentrant (buy_body fhe accepts sender val amount)) s)
           = Inl RefundFailed"
    using assms(1,2,4,6) nl nv rp cs cv
    by (simp add: payable_def nonReentrant_def buy_body_def Let_def call_value_def)
  show "remainingForSaleClear
           (snd (payable val (nonReentrant (buy_body fhe accepts sender val amount)) s))
           = remainingForSaleClear s - amount"
    using assms(1,2,4,6) nl nv rp cs cv
    by (simp add: payable_def nonReentrant_def buy_body_def Let_def call_value_def)
qed

text \<open>
  C2: every failing call of \<open>buy\<close> leaves the whole ledger state as it was before the
  call: \<open>remainingForSaleClear\<close>, \<open>pricePerTokenWei\<close>, the confidential balances, the
  ether held, the events and the transfers made. This includes the call whose refund
  is rejected: it fails with \<open>RefundFailed\<close> and returns the state before the call,
  although its body had by then decremented the counter.
\<close>

theorem buy_all_or_nothing:
  "(buy fhe accepts sender val amount s = (Inl e, s') \<longrightarrow> s' = s) \<and>
   (\<not> entered s \<and> amount \<noteq> 0 \<and> amount \<le> remainingForSaleClear s \<and>
    quoteBuy s amount = Inr q \<and> q < val \<and> \<not> accepts sender (val - q) \<longrightarrow>
      buy fhe accepts sender val amount s = (Inl RefundFailed, s) \<and>
      fst (payable val (nonReentrant (buy_body fhe accepts sender val amount)) s)
        = Inl RefundFailed \<and>
      remainingForSaleClear
        (snd (payable val (nonReentrant (buy_body fhe accepts sender val amount)) s))
        = remainingForSaleClear s - amount)"
proof (intro conjI impI)
  assume "buy fhe accepts sender val amount s = (Inl e, s')"
  then show "s' = s" by (rule buy_Inl)
next
  assume h: "\<not> entered s \<and> amount \<noteq> 0 \<and> amount \<le> remainingForSaleClear s \<and>
    quoteBuy s amount = Inr q \<and> q < val \<and> \<not> accepts sender (val - q)"
  then have nl: "\<not> remainingForSaleClear s < amount" and nv: "\<not> val < q" by auto
  show "buy fhe accepts sender val amount s = (Inl RefundFailed, s)"
    using h nl nv buy_unfold [of s fhe accepts sender val amount] by simp
  show "fst (payable val (nonReentrant (buy_body fhe accepts sender val amount)) s)
        = Inl RefundFailed"
    using h payable_guarded_buy_refund_fails(1) [of s amount q val accepts sender fhe] by simp
  show "remainingForSaleClear
        (snd (payable val (nonReentrant (buy_body fhe accepts sender val amount)) s))
        = remainingForSaleClear s - amount"
    using h payable_guarded_buy_refund_fails(2) [of s amount q val accepts sender fhe] by simp
qed

text \<open>
  C2 at a concrete input: a buyer who rejects value transfers overpays the test's token;
  the body reaches a counter of 8000000, the call leaves 10000000.
\<close>

theorem buy_all_or_nothing_witness:
  "buy clear_fhe nobody 0xB0 3000000000000000 2000000 test_token = (Inl RefundFailed, test_token) \<and>
   remainingForSaleClear
     (snd (payable 3000000000000000
        (nonReentrant (buy_body clear_fhe nobody 0xB0 3000000000000000 2000000)) test_token))
     = 8000000"
  using buy_all_or_nothing [of clear_fhe nobody "0xB0" 3000000000000000 2000000 test_token
      RefundFailed test_token 2000000000000000]
  by (simp add: test_quote) (simp add: test_token_def nobody_def)

section \<open>The cost of a purchase (claims C3 and C9)\<close>

text \<open>
  C3, as stated, at a concrete input: 2000000 units are in stock and the payment is one
  wei above the quote, yet \<open>buy\<close> does not succeed: the buyer rejects the refund of one
  wei and the call fails with \<open>RefundFailed\<close>.
\<close>

theorem buy_refund_rejected_counterexample:
  "(0::uint64) < 2000000 \<and> 2000000 \<le> remainingForSaleClear test_token \<and>
   quoteBuy test_token 2000000 = Inr 2000000000000000 \<and>
   (2000000000000000::uint256) \<le> 2000000000000001 \<and>
   buy clear_fhe nobody 0xB0 2000000000000001 2000000 test_token = (Inl RefundFailed, test_token)"
proof -
  have ne: "\<not> entered test_token" by (simp add: test_token_def)
  have "buy clear_fhe nobody 0xB0 2000000000000001 2000000 test_token = (Inl RefundFailed, test_token)"
    unfolding buy_unfold [OF ne] by (simp add: test_quote) (simp add: test_token_def nobody_def)
  then show ?thesis by (simp add: test_quote) (simp add: test_token_def)
qed

text \<open>
  C3, amended: for every amount with \<open>0 < amount \<le> remainingForSaleClear\<close> and every
  payment of at least the quote, provided the caller accepts the refund when the payment
  exceeds the quote, \<open>buy\<close> succeeds, decrements \<open>remainingForSaleClear\<close> by exactly
  \<open>amount\<close>, sends exactly \<open>val - q\<close> back to the caller (no transfer when that is 0)
  and keeps exactly \<open>q\<close> wei, so the caller's net cost is the quote.
\<close>

theorem buy_exact_cost:
  assumes "reachable fhe s" and "amount \<noteq> 0" and "amount \<le> remainingForSaleClear s"
    and "quoteBuy s amount = Inr q" and "q \<le> val"
    and "q < val \<longrightarrow> accepts sender (val - q)"
  shows "\<exists>h s'. buy fhe accepts sender val amount s = (Inr h, s') \<and>
           remainingForSaleClear s' = remainingForSaleClear s - amount \<and>
           unat (remainingForSaleClear s') = unat (remainingForSaleClear s) - unat amount \<and>
           sent s' = sent s @ (if q < val then [(sender, val - q)] else []) \<and>
           balance s' = balance s + unat q \<and>
           unat val - unat (val - q) = unat q"
proof -
  have ne: "\<not> entered s" using assms(1) by (rule reachable_not_entered)
  have nl: "\<not> remainingForSaleClear s < amount" using assms(3) by simp
  have nv: "\<not> val < q" using assms(5) by simp
  have b: "buy fhe accepts sender val amount s =
      (Inr (snd (erc_transfer fhe (this s) sender (asEuint64 fhe amount) (balances s))),
       purchased fhe sender val amount q s)"
    unfolding buy_unfold [OF ne] using assms(2,4,5,6) nl nv by auto
  have u: "unat (remainingForSaleClear s - amount) = unat (remainingForSaleClear s) - unat amount"
    using assms(3) by (rule unat_sub)
  have "unat (val - q) = unat val - unat q" using assms(5) by (rule unat_refund)
  moreover have "unat q \<le> unat val" using assms(5) by (simp add: word_le_nat_alt)
  ultimately have net: "unat val - unat (val - q) = unat q" by simp
  show ?thesis using b u net by simp
qed

text \<open>C3 at a concrete input: seven wei too much are paid and seven wei come back.\<close>

theorem buy_exact_cost_witness:
  "\<exists>h s'. buy clear_fhe everyone 0xB0 2000000000000007 2000000 test_token = (Inr h, s') \<and>
      remainingForSaleClear s' = 8000000 \<and> sent s' = [(0xB0, 7)] \<and>
      balance s' = 2000000000000000"
  using buy_exact_cost [OF test_token_reachable, of 2000000 2000000000000000 2000000000000007
      everyone "0xB0"]
  by (simp add: test_quote) (auto simp: test_token_def everyone_def)

section \<open>The order of the checks of buy (claim C4)\<close>

text \<open>
  C4: \<open>buy\<close> checks in this order. An amount of 0 gives \<open>InvalidAmount\<close>; then an
  amount above \<open>remainingForSaleClear\<close> gives \<open>SoldOut\<close>, whatever value is attached;
  then a payment below the quote gives \<open>InsufficientPayment\<close> carrying the required
  and the supplied wei. The three failures are distinct values.
\<close>

theorem buy_precondition_order:
  assumes "reachable fhe s"
  shows "(amount = 0 \<longrightarrow> buy fhe accepts sender val amount s = (Inl InvalidAmount, s)) \<and>
         (amount \<noteq> 0 \<and> remainingForSaleClear s < amount \<longrightarrow>
            buy fhe accepts sender val amount s = (Inl SoldOut, s)) \<and>
         (amount \<noteq> 0 \<and> amount \<le> remainingForSaleClear s \<and> quoteBuy s amount = Inr q \<and>
          val < q \<longrightarrow>
            buy fhe accepts sender val amount s = (Inl (InsufficientPayment q val), s)) \<and>
         InvalidAmount \<noteq> SoldOut \<and> InvalidAmount \<noteq> InsufficientPayment q val \<and>
         SoldOut \<noteq> InsufficientPayment q val"
proof -
  have ne: "\<not> entered s" using assms by (rule reachable_not_entered)
  show ?thesis unfolding buy_unfold [OF ne] by (auto simp: not_less)
qed

text \<open>
  C4 at concrete inputs: amount 0 with a payment; one unit more than the supply with one
  ether attached; one wei less than the quote.
\<close>

theorem buy_precondition_order_witness:
  "buy clear_fhe everyone 0xB0 5 0 test_token = (Inl InvalidAmount, test_token) \<and>
   buy clear_fhe everyone 0xB0 1000000000000000000 10000001 test_token
     = (Inl SoldOut, test_token) \<and>
   buy clear_fhe everyone 0xB0 1999999999999999 2000000 test_token
     = (Inl (InsufficientPayment 2000000000000000 1999999999999999), test_token)"
  using buy_precondition_order [OF test_token_reachable, of 0 everyone "0xB0" 5]
    buy_precondition_order [OF test_token_reachable, of 10000001 everyone "0xB0"
      1000000000000000000]
    buy_precondition_order [OF test_token_reachable, of 2000000 everyone "0xB0"
      1999999999999999 2000000000000000]
  by (simp add: test_quote) (simp add: test_token_def)

section \<open>The supply counter (claim C5)\<close>

text \<open>
  C5: in every reachable state \<open>remainingForSaleClear \<le> totalSupplyClear\<close> (both are
  unsigned, so both are at least 0). Construction sets the counter to the supply and
  fails for a supply of 0. A successful \<open>buy\<close> has \<open>0 < amount \<le> remainingForSaleClear\<close>
  and lowers the counter by exactly \<open>amount\<close>, without wrapping. A failing \<open>buy\<close>,
  \<open>setPricePerTokenWei\<close> and \<open>withdraw\<close> leave the counter and the supply as they were;
  \<open>quoteBuy\<close> returns no state at all.
\<close>

theorem remaining_supply_invariant:
  assumes "reachable fhe s"
  shows "remainingForSaleClear s \<le> totalSupplyClear s \<and>
    (constructor fhe self nm smb issued price uri initialOwner = Inr s0 \<longrightarrow>
        issued \<noteq> 0 \<and> totalSupplyClear s0 = issued \<and> remainingForSaleClear s0 = issued) \<and>
    (\<exists>e. constructor fhe self nm smb 0 price uri initialOwner = Inl e) \<and>
    (buy fhe accepts sender val amount s = (Inr h, s') \<longrightarrow>
        amount \<noteq> 0 \<and> amount \<le> remainingForSaleClear s \<and>
        remainingForSaleClear s' = remainingForSaleClear s - amount \<and>
        unat (remainingForSaleClear s') + unat amount = unat (remainingForSaleClear s) \<and>
        remainingForSaleClear s' < remainingForSaleClear s \<and>
        totalSupplyClear s' = totalSupplyClear s) \<and>
    (buy fhe accepts sender val amount s = (Inl e, s') \<longrightarrow>
        remainingForSaleClear s' = remainingForSaleClear s \<and>
        totalSupplyClear s' = totalSupplyClear s) \<and>
    (setPricePerTokenWei sender p s = (u, s1) \<longrightarrow>
        remainingForSaleClear s1 = remainingForSaleClear s \<and>
        totalSupplyClear s1 = totalSupplyClear s) \<and>
    (withdraw accepts sender to w s = (u, s2) \<longrightarrow>
        remainingForSaleClear s2 = remainingForSaleClear s \<and>
        totalSupplyClear s2 = totalSupplyClear s)"
proof (intro conjI impI)
  show "remainingForSaleClear s \<le> totalSupplyClear s" using reachable_inv [OF assms] by simp
next
  assume "constructor fhe self nm smb issued price uri initialOwner = Inr s0"
  then show "issued \<noteq> 0" "totalSupplyClear s0 = issued" "remainingForSaleClear s0 = issued"
    using constructor_Inr [of fhe self nm smb issued price uri initialOwner s0] by simp_all
next
  show "\<exists>e. constructor fhe self nm smb 0 price uri initialOwner = Inl e"
    by (simp add: constructor_def)
next
  assume b: "buy fhe accepts sender val amount s = (Inr h, s')"
  have ne: "\<not> entered s" using assms by (rule reachable_not_entered)
  obtain q where a0: "amount \<noteq> 0" and a: "amount \<le> remainingForSaleClear s"
    and s': "s' = purchased fhe sender val amount q s"
    using buy_Inr [OF ne b] by blast
  have u: "unat (remainingForSaleClear s - amount) = unat (remainingForSaleClear s) - unat amount"
    using a by (rule unat_sub)
  have le: "unat amount \<le> unat (remainingForSaleClear s)" using a by (simp add: word_le_nat_alt)
  have pos: "0 < unat amount" using a0 by (simp add: unat_gt_0)
  show "amount \<noteq> 0" by (rule a0)
  show "amount \<le> remainingForSaleClear s" by (rule a)
  show "remainingForSaleClear s' = remainingForSaleClear s - amount" using s' by simp
  show "unat (remainingForSaleClear s') + unat amount = unat (remainingForSaleClear s)"
    using s' u le by simp
  show "remainingForSaleClear s' < remainingForSaleClear s"
    using s' u le pos by (simp add: word_less_nat_alt)
  show "totalSupplyClear s' = totalSupplyClear s" using s' by simp
next
  assume "buy fhe accepts sender val amount s = (Inl e, s')"
  then have "s' = s" by (rule buy_Inl)
  then show "remainingForSaleClear s' = remainingForSaleClear s"
    "totalSupplyClear s' = totalSupplyClear s" by simp_all
next
  assume "setPricePerTokenWei sender p s = (u, s1)"
  then show "remainingForSaleClear s1 = remainingForSaleClear s"
    "totalSupplyClear s1 = totalSupplyClear s"
    by (auto simp: setPricePerTokenWei_unfold split: if_splits)
next
  assume "withdraw accepts sender to w s = (u, s2)"
  then show "remainingForSaleClear s2 = remainingForSaleClear s"
    "totalSupplyClear s2 = totalSupplyClear s"
    by (auto simp: withdraw_unfold split: if_splits)
qed

text \<open>C5 on the test's token, before and after its purchase.\<close>

theorem remaining_supply_invariant_witness:
  "remainingForSaleClear sold_token \<le> totalSupplyClear sold_token \<and>
   remainingForSaleClear test_token = 10000000 \<and>
   remainingForSaleClear sold_token = 10000000 - 2000000 \<and>
   remainingForSaleClear sold_token < remainingForSaleClear test_token"
  using remaining_supply_invariant [OF sold_token_reachable]
    remaining_supply_invariant [OF test_token_reachable,
      of "0x70" "''MyToken''" "''MTK''" 10000000 1000000000000000 "''''" "0xC0" test_token
         everyone "0xB0" 2000000000000000 2000000 2000000 sold_token]
    test_token_constructed test_buy
  by simp

section \<open>The failure of a withdrawal (claim C6)\<close>

text \<open>
  C6, as stated, at a concrete input: the owner withdraws 5 wei to a receiver that
  rejects the transfer, and the call fails with \<open>InvalidWithdraw\<close>, the very reason a
  withdrawal of 0 wei fails with. There is no separate reason for the failed transfer.
\<close>

theorem withdraw_transfer_failure_counterexample:
  "withdraw nobody 0xC0 0xA1 5 sold_token = (Inl InvalidWithdraw, sold_token) \<and>
   withdraw everyone 0xC0 0xA1 0 sold_token = (Inl InvalidWithdraw, sold_token)"
  by (simp add: withdraw_unfold sold_token_def nobody_def)

text \<open>
  C6, amended: when the transfer of a withdrawal does not succeed, \<open>withdraw\<close> fails
  with \<open>InvalidWithdraw\<close>, the same reason as for a null recipient, a zero amount or an
  amount above the balance, and the state is unchanged. The reasons \<open>InvalidAmount\<close>,
  \<open>SoldOut\<close>, \<open>InsufficientPayment\<close>, \<open>RefundFailed\<close> (the failed refund of \<open>buy\<close>),
  \<open>InvalidWithdraw\<close> and \<open>OwnableUnauthorizedAccount\<close> are pairwise distinct.
\<close>

theorem withdraw_failure_reason:
  assumes "reachable fhe s" and "sender = owner s"
  shows "(to \<noteq> 0 \<and> w \<noteq> 0 \<and> unat w \<le> balance s \<and> \<not> accepts to w \<longrightarrow>
            withdraw accepts sender to w s = (Inl InvalidWithdraw, s)) \<and>
         (to = 0 \<or> w = 0 \<or> balance s < unat w \<longrightarrow>
            withdraw accepts sender to w s = (Inl InvalidWithdraw, s)) \<and>
         distinct [InvalidAmount, SoldOut, InsufficientPayment r p, RefundFailed,
                   InvalidWithdraw, OwnableUnauthorizedAccount a]"
proof -
  have ne: "\<not> entered s" using assms(1) by (rule reachable_not_entered)
  show ?thesis using ne assms(2) by (auto simp: withdraw_unfold)
qed

text \<open>
  C6 at concrete inputs: a rejected transfer, a null recipient, and one wei more than
  the contract holds.
\<close>

theorem withdraw_failure_reason_witness:
  "withdraw nobody 0xC0 0xA1 2000000000000000 sold_token = (Inl InvalidWithdraw, sold_token) \<and>
   withdraw everyone 0xC0 0 2000000000000000 sold_token = (Inl InvalidWithdraw, sold_token) \<and>
   withdraw everyone 0xC0 0xA1 2000000000000001 sold_token = (Inl InvalidWithdraw, sold_token)"
  using withdraw_failure_reason [OF sold_token_reachable, of "0xC0" "0xA1" 2000000000000000 nobody]
    withdraw_failure_reason [OF sold_token_reachable, of "0xC0" 0 2000000000000000 everyone]
    withdraw_failure_reason [OF sold_token_reachable, of "0xC0" "0xA1" 2000000000000001 everyone]
  by (simp add: sold_token_def nobody_def)

text \<open>The token with a price of zero is a state of the program too.\<close>

lemma free_token_constructed:
  "constructor clear_fhe 0x70 ''MyToken'' ''MTK'' 10000000 0 '''' 0xC0 = Inr free_token"
  by (simp add: constructor_def clear_fhe_def clear_mint_def test_token_def free_token_def)

lemma free_token_reachable: "reachable clear_fhe free_token"
  using free_token_constructed by (rule r_init)

section \<open>Buying at a price of zero (claim C9)\<close>

text \<open>
  C9, as stated, at a concrete input: the price is 0, 2000000 units are in stock, one wei
  is attached, and \<open>buy\<close> fails: the buyer rejects the refund of that wei.
\<close>

theorem free_buy_refund_rejected_counterexample:
  "pricePerTokenWei free_token = 0 \<and> (0::uint64) < 2000000 \<and>
   2000000 \<le> remainingForSaleClear free_token \<and>
   buy clear_fhe nobody 0xB0 1 2000000 free_token = (Inl RefundFailed, free_token)"
proof -
  have ne: "\<not> entered free_token" by (simp add: free_token_def test_token_def)
  have q: "quoteBuy free_token 2000000 = Inr 0" by (simp add: quoteBuy_def free_token_def)
  have "buy clear_fhe nobody 0xB0 1 2000000 free_token = (Inl RefundFailed, free_token)"
    unfolding buy_unfold [OF ne] by (simp add: q) (simp add: free_token_def test_token_def nobody_def)
  then show ?thesis by (simp add: free_token_def test_token_def)
qed

text \<open>
  C9, amended: when \<open>pricePerTokenWei\<close> is 0, \<open>buy\<close> with
  \<open>0 < amount \<le> remainingForSaleClear\<close> succeeds for a payment of zero and for any
  payment the caller accepts back: the required payment is 0, the confidential transfer
  of \<open>amount\<close> from the contract to the caller is made, \<open>remainingForSaleClear\<close> is
  decremented by \<open>amount\<close>, and the whole payment is sent back (no transfer for a
  payment of zero), so the contract's ether is unchanged.
\<close>

theorem free_buy:
  assumes "reachable fhe s" and "pricePerTokenWei s = 0"
    and "amount \<noteq> 0" and "amount \<le> remainingForSaleClear s"
    and "val \<noteq> 0 \<longrightarrow> accepts sender val"
  shows "quoteBuy s amount = Inr 0 \<and>
         (\<exists>s'. buy fhe accepts sender val amount s =
            (Inr (snd (erc_transfer fhe (this s) sender (asEuint64 fhe amount) (balances s))), s') \<and>
            balances s' = fst (erc_transfer fhe (this s) sender (asEuint64 fhe amount) (balances s)) \<and>
            remainingForSaleClear s' = remainingForSaleClear s - amount \<and>
            unat (remainingForSaleClear s') = unat (remainingForSaleClear s) - unat amount \<and>
            sent s' = sent s @ (if val \<noteq> 0 then [(sender, val)] else []) \<and>
            balance s' = balance s)"
proof -
  have ne: "\<not> entered s" using assms(1) by (rule reachable_not_entered)
  have q: "quoteBuy s amount = Inr 0" using assms(2) by (simp add: quoteBuy_def)
  have nl: "\<not> remainingForSaleClear s < amount" using assms(4) by simp
  have lt: "(0 < val) = (val \<noteq> 0)" by (simp add: word_neq_0_conv)
  have b: "buy fhe accepts sender val amount s =
      (Inr (snd (erc_transfer fhe (this s) sender (asEuint64 fhe amount) (balances s))),
       purchased fhe sender val amount 0 s)"
    unfolding buy_unfold [OF ne] using assms(3,5) nl q lt by auto
  have u: "unat (remainingForSaleClear s - amount) = unat (remainingForSaleClear s) - unat amount"
    using assms(4) by (rule unat_sub)
  show ?thesis using q b u lt by simp
qed

text \<open>
  C9 at concrete inputs: no payment to a buyer who accepts nothing, and five wei from a
  buyer who accepts them back.
\<close>

theorem free_buy_witness:
  "(\<exists>s'. buy clear_fhe nobody 0xB0 0 2000000 free_token = (Inr 2000000, s') \<and>
         remainingForSaleClear s' = 8000000 \<and> balances s' 0xB0 = 2000000 \<and>
         sent s' = [] \<and> balance s' = 0) \<and>
   (\<exists>s'. buy clear_fhe everyone 0xB0 5 2000000 free_token = (Inr 2000000, s') \<and>
         remainingForSaleClear s' = 8000000 \<and> balances s' 0xB0 = 2000000 \<and>
         sent s' = [(0xB0, 5)] \<and> balance s' = 0)"
  using free_buy [OF free_token_reachable, of 2000000 0 nobody "0xB0"]
    free_buy [OF free_token_reachable, of 2000000 5 everyone "0xB0"]
  by (auto simp: free_token_def test_token_def everyone_def clear_fhe_def clear_transfer_def)

section \<open>Setting the price (claim C10)\<close>

text \<open>
  C10: called by the owner, \<open>setPricePerTokenWei\<close> succeeds for every value and changes
  only \<open>pricePerTokenWei\<close>, apart from logging the event: \<open>totalSupplyClear\<close>,
  \<open>remainingForSaleClear\<close>, the ether held and the confidential balances stay, and the
  event carries the price before the call as the old value.
\<close>

theorem setPricePerTokenWei_frame:
  assumes "sender = owner s"
  shows "\<exists>s'. setPricePerTokenWei sender p s = (Inr (), s') \<and>
           s' = s\<lparr>events := events s @ [PriceUpdated (pricePerTokenWei s) p],
                  pricePerTokenWei := p\<rparr> \<and>
           pricePerTokenWei s' = p \<and>
           totalSupplyClear s' = totalSupplyClear s \<and>
           remainingForSaleClear s' = remainingForSaleClear s \<and>
           balance s' = balance s \<and>
           balances s' = balances s \<and>
           sent s' = sent s \<and>
           events s' = events s @ [PriceUpdated (pricePerTokenWei s) p]"
  using assms by (simp add: setPricePerTokenWei_unfold)

text \<open>C10 at concrete inputs: the price set to 0, and set to the value it already has.\<close>

theorem setPricePerTokenWei_frame_witness:
  "(\<exists>s'. setPricePerTokenWei 0xC0 0 sold_token = (Inr (), s') \<and> pricePerTokenWei s' = 0 \<and>
         balance s' = 2000000000000000 \<and> remainingForSaleClear s' = 8000000 \<and>
         last (events s') = PriceUpdated 1000000000000000 0) \<and>
   (\<exists>s'. setPricePerTokenWei 0xC0 1000000000000000 sold_token = (Inr (), s') \<and>
         pricePerTokenWei s' = pricePerTokenWei sold_token)"
  using setPricePerTokenWei_frame [of "0xC0" sold_token 0]
    setPricePerTokenWei_frame [of "0xC0" sold_token 1000000000000000]
  by (auto simp: sold_token_def)

section \<open>The factory's lists (claim C7)\<close>

lemma distinct_count_list_1: "distinct xs \<Longrightarrow> a \<in> set xs \<Longrightarrow> count_list xs a = 1"
  by (induction xs) auto

lemma createToken_unfold:
  "createToken fhe addr sender nm smb issued price f =
     (case deployed f addr of
        Some c \<Rightarrow> (Inl (CreateCollision addr), f)
      | None \<Rightarrow>
         (case constructor fhe addr nm smb issued price '''' sender of
            Inl e \<Rightarrow> (Inl e, f)
          | Inr c \<Rightarrow>
             (Inr addr,
              f\<lparr>deployed := (deployed f)(addr \<mapsto> c),
                allTokens := allTokens f @ [addr],
                tokensByCreator :=
                  (tokensByCreator f)(sender := tokensByCreator f sender @ [addr]),
                created := created f @ [TokenCreated sender addr nm smb issued price]\<rparr>)))"
  by (simp add: createToken_def external_def createToken_body_def new_token_def Let_def
      split: option.splits sum.splits)

lemma createToken_Inl:
  "createToken fhe addr sender nm smb issued price f = (Inl e, f') \<Longrightarrow> f' = f"
  unfolding createToken_def by (rule external_Inl)

lemma createToken_Inr:
  assumes "createToken fhe addr sender nm smb issued price f = (Inr token, f')"
  shows "token = addr \<and> deployed f addr = None \<and>
         (\<exists>c. constructor fhe addr nm smb issued price '''' sender = Inr c \<and>
              deployed f' = (deployed f)(addr \<mapsto> c)) \<and>
         allTokens f' = allTokens f @ [addr] \<and>
         tokensByCreator f' = (tokensByCreator f)(sender := tokensByCreator f sender @ [addr]) \<and>
         created f' = created f @ [TokenCreated sender addr nm smb issued price]"
  using assms unfolding createToken_unfold
  by (auto split: option.splits sum.splits)

text \<open>
  The global list has no duplicates, lists only contracts that exist, and contains every
  entry of every creator's list.
\<close>

lemma f_reachable_inv:
  "f_reachable fhe f \<Longrightarrow>
     distinct (allTokens f) \<and> set (allTokens f) \<subseteq> dom (deployed f) \<and>
     (\<forall>u. set (tokensByCreator f u) \<subseteq> set (allTokens f))"
proof (induction rule: f_reachable.induct)
  case (f_init d)
  show ?case by simp
next
  case (f_create f addr sender nm smb issued price r f')
  show ?case
  proof (cases r)
    case (Inl e)
    then have "f' = f" using f_create.hyps(2) createToken_Inl by blast
    then show ?thesis using f_create.IH by simp
  next
    case (Inr token)
    then have c: "createToken fhe addr sender nm smb issued price f = (Inr token, f')"
      using f_create.hyps(2) by simp
    note k = createToken_Inr [OF c]
    have fresh: "addr \<notin> set (allTokens f)"
      using k f_create.IH by (auto simp: domIff)
    have d: "distinct (allTokens f')" using k fresh f_create.IH by simp
    have s: "set (allTokens f') \<subseteq> dom (deployed f')" using k f_create.IH by auto
    have t: "\<forall>u. set (tokensByCreator f' u) \<subseteq> set (allTokens f')"
      using k f_create.IH by auto
    show ?thesis using d s t by simp
  qed
next
  case (f_world f d)
  then have "set (allTokens f) \<subseteq> dom d" by blast
  then show ?case using f_world.IH by simp
qed

text \<open>
  \<open>createToken\<close> succeeds whenever the address of the new contract is free, the caller
  is not the zero address and the supply is not 0, and then it is the append to both
  lists; with a supply of 0 the constructor's failure propagates.
\<close>

lemma createToken_succeeds:
  assumes "deployed f addr = None" and "sender \<noteq> 0" and "issued \<noteq> 0"
  shows "\<exists>c. constructor fhe addr nm smb issued price '''' sender = Inr c \<and>
           createToken fhe addr sender nm smb issued price f =
             (Inr addr,
              f\<lparr>deployed := (deployed f)(addr \<mapsto> c),
                allTokens := allTokens f @ [addr],
                tokensByCreator :=
                  (tokensByCreator f)(sender := tokensByCreator f sender @ [addr]),
                created := created f @ [TokenCreated sender addr nm smb issued price]\<rparr>)"
  using assms by (simp add: createToken_unfold constructor_def)

lemma createToken_zero_supply:
  assumes "deployed f addr = None" and "sender \<noteq> 0"
  shows "createToken fhe addr sender nm smb 0 price f = (Inl InvalidAmount, f)"
  using assms by (simp add: createToken_unfold constructor_def)

lemma createToken_grows:
  assumes "createToken fhe addr sender nm smb issued price f = (r, g)"
  shows "(\<exists>ys. allTokens g = allTokens f @ ys) \<and>
         (\<forall>u. \<exists>zs. tokensByCreator g u = tokensByCreator f u @ zs)"
proof (cases r)
  case (Inl e)
  then have "g = f" using assms createToken_Inl by blast
  then show ?thesis by simp
next
  case (Inr token)
  then have c: "createToken fhe addr sender nm smb issued price f = (Inr token, g)"
    using assms by simp
  have l: "allTokens g = allTokens f @ [addr]"
    and m: "tokensByCreator g = (tokensByCreator f)(sender := tokensByCreator f sender @ [addr])"
    using createToken_Inr [OF c] by simp_all
  show ?thesis using l m by simp
qed

text \<open>
  C7: in every reachable state of the factory, every address in a creator's list occurs
  exactly once in the global list. \<open>createToken\<close> with a free address for the new
  contract, a caller other than the zero address and a supply other than 0 succeeds,
  returns the new address, and appends it, which was in neither list, once at the end of
  the global list and once at the end of the caller's list, leaving the other creators'
  lists alone and logging the creation. Whatever a successful call returns is such an
  append; a call with a supply of 0 fails, and a failing call changes no list. After any
  call each list is the list before it with something appended: both lists only grow,
  in the order of creation.
\<close>

theorem registry_lists:
  assumes "f_reachable fhe f"
  shows "(\<forall>u. \<forall>a \<in> set (tokensByCreator f u). count_list (allTokens f) a = 1) \<and>
         (deployed f addr = None \<and> sender \<noteq> 0 \<and> issued \<noteq> 0 \<longrightarrow>
            (\<exists>g. createToken fhe addr sender nm smb issued price f = (Inr addr, g) \<and>
                 addr \<notin> set (allTokens f) \<and>
                 addr \<notin> set (tokensByCreator f sender) \<and>
                 allTokens g = allTokens f @ [addr] \<and>
                 tokensByCreator g sender = tokensByCreator f sender @ [addr] \<and>
                 (\<forall>u. u \<noteq> sender \<longrightarrow> tokensByCreator g u = tokensByCreator f u) \<and>
                 count_list (allTokens g) addr = 1 \<and>
                 count_list (tokensByCreator g sender) addr = 1 \<and>
                 created g = created f @ [TokenCreated sender addr nm smb issued price] \<and>
                 (\<forall>u. \<forall>a \<in> set (tokensByCreator g u). count_list (allTokens g) a = 1))) \<and>
         (deployed f addr = None \<and> sender \<noteq> 0 \<longrightarrow>
            createToken fhe addr sender nm smb 0 price f = (Inl InvalidAmount, f)) \<and>
         (createToken fhe addr sender nm smb issued price f = (Inr token, f') \<longrightarrow>
            token \<notin> set (allTokens f) \<and>
            allTokens f' = allTokens f @ [token] \<and>
            tokensByCreator f' sender = tokensByCreator f sender @ [token] \<and>
            (\<forall>u. u \<noteq> sender \<longrightarrow> tokensByCreator f' u = tokensByCreator f u) \<and>
            count_list (allTokens f') token = 1) \<and>
         (createToken fhe addr sender nm smb issued price f = (Inl e, f') \<longrightarrow>
            allTokens f' = allTokens f \<and> tokensByCreator f' = tokensByCreator f) \<and>
         (createToken fhe addr sender nm smb issued price f = (r, f2) \<longrightarrow>
            (\<exists>ys. allTokens f2 = allTokens f @ ys) \<and>
            (\<forall>u. \<exists>zs. tokensByCreator f2 u = tokensByCreator f u @ zs))"
proof -
  have d: "distinct (allTokens f)" and dom: "set (allTokens f) \<subseteq> dom (deployed f)"
    and sub: "\<And>u. set (tokensByCreator f u) \<subseteq> set (allTokens f)"
    using f_reachable_inv [OF assms] by simp_all
  have once: "\<forall>u. \<forall>a \<in> set (tokensByCreator f u). count_list (allTokens f) a = 1"
  proof (intro allI ballI)
    fix u a assume "a \<in> set (tokensByCreator f u)"
    then have "a \<in> set (allTokens f)" using sub by blast
    with d show "count_list (allTokens f) a = 1" by (rule distinct_count_list_1)
  qed
  have good: "deployed f addr = None \<and> sender \<noteq> 0 \<and> issued \<noteq> 0 \<longrightarrow>
            (\<exists>g. createToken fhe addr sender nm smb issued price f = (Inr addr, g) \<and>
                 addr \<notin> set (allTokens f) \<and>
                 addr \<notin> set (tokensByCreator f sender) \<and>
                 allTokens g = allTokens f @ [addr] \<and>
                 tokensByCreator g sender = tokensByCreator f sender @ [addr] \<and>
                 (\<forall>u. u \<noteq> sender \<longrightarrow> tokensByCreator g u = tokensByCreator f u) \<and>
                 count_list (allTokens g) addr = 1 \<and>
                 count_list (tokensByCreator g sender) addr = 1 \<and>
                 created g = created f @ [TokenCreated sender addr nm smb issued price] \<and>
                 (\<forall>u. \<forall>a \<in> set (tokensByCreator g u). count_list (allTokens g) a = 1))"
  proof
    assume h: "deployed f addr = None \<and> sender \<noteq> 0 \<and> issued \<noteq> 0"
    then obtain c where
      run: "createToken fhe addr sender nm smb issued price f =
             (Inr addr,
              f\<lparr>deployed := (deployed f)(addr \<mapsto> c),
                allTokens := allTokens f @ [addr],
                tokensByCreator :=
                  (tokensByCreator f)(sender := tokensByCreator f sender @ [addr]),
                created := created f @ [TokenCreated sender addr nm smb issued price]\<rparr>)"
      using createToken_succeeds [of f addr sender issued fhe nm smb price] by blast
    define g where "g = f\<lparr>deployed := (deployed f)(addr \<mapsto> c),
                allTokens := allTokens f @ [addr],
                tokensByCreator :=
                  (tokensByCreator f)(sender := tokensByCreator f sender @ [addr]),
                created := created f @ [TokenCreated sender addr nm smb issued price]\<rparr>"
    have rg: "createToken fhe addr sender nm smb issued price f = (Inr addr, g)"
      using run by (simp add: g_def)
    have "addr \<notin> dom (deployed f)" using h by (simp add: domIff)
    then have fresh: "addr \<notin> set (allTokens f)" using dom by blast
    then have fresh2: "addr \<notin> set (tokensByCreator f sender)" using sub by blast
    have reach: "f_reachable fhe g" using assms rg by (rule f_create)
    have dg: "distinct (allTokens g)"
      and subg: "\<And>u. set (tokensByCreator g u) \<subseteq> set (allTokens g)"
      using f_reachable_inv [OF reach] by simp_all
    have onceg: "\<forall>u. \<forall>a \<in> set (tokensByCreator g u). count_list (allTokens g) a = 1"
    proof (intro allI ballI)
      fix u a assume "a \<in> set (tokensByCreator g u)"
      then have "a \<in> set (allTokens g)" using subg by blast
      with dg show "count_list (allTokens g) a = 1" by (rule distinct_count_list_1)
    qed
    have l: "allTokens g = allTokens f @ [addr]" by (simp add: g_def)
    have m: "tokensByCreator g sender = tokensByCreator f sender @ [addr]" by (simp add: g_def)
    have o: "\<forall>u. u \<noteq> sender \<longrightarrow> tokensByCreator g u = tokensByCreator f u"
      by (simp add: g_def)
    have c1: "count_list (allTokens g) addr = 1" using l fresh by simp
    have c2: "count_list (tokensByCreator g sender) addr = 1" using m fresh2 by simp
    have ev: "created g = created f @ [TokenCreated sender addr nm smb issued price]"
      by (simp add: g_def)
    show "\<exists>g. createToken fhe addr sender nm smb issued price f = (Inr addr, g) \<and>
                 addr \<notin> set (allTokens f) \<and>
                 addr \<notin> set (tokensByCreator f sender) \<and>
                 allTokens g = allTokens f @ [addr] \<and>
                 tokensByCreator g sender = tokensByCreator f sender @ [addr] \<and>
                 (\<forall>u. u \<noteq> sender \<longrightarrow> tokensByCreator g u = tokensByCreator f u) \<and>
                 count_list (allTokens g) addr = 1 \<and>
                 count_list (tokensByCreator g sender) addr = 1 \<and>
                 created g = created f @ [TokenCreated sender addr nm smb issued price] \<and>
                 (\<forall>u. \<forall>a \<in> set (tokensByCreator g u). count_list (allTokens g) a = 1)"
      using rg fresh fresh2 l m o c1 c2 ev onceg by blast
  qed
  have zero: "deployed f addr = None \<and> sender \<noteq> 0 \<longrightarrow>
            createToken fhe addr sender nm smb 0 price f = (Inl InvalidAmount, f)"
    using createToken_zero_supply [of f addr sender fhe nm smb price] by blast
  have ok: "createToken fhe addr sender nm smb issued price f = (Inr token, f') \<longrightarrow>
            token \<notin> set (allTokens f) \<and>
            allTokens f' = allTokens f @ [token] \<and>
            tokensByCreator f' sender = tokensByCreator f sender @ [token] \<and>
            (\<forall>u. u \<noteq> sender \<longrightarrow> tokensByCreator f' u = tokensByCreator f u) \<and>
            count_list (allTokens f') token = 1"
  proof
    assume c: "createToken fhe addr sender nm smb issued price f = (Inr token, f')"
    have t: "token = addr" and n: "deployed f addr = None"
      and l: "allTokens f' = allTokens f @ [addr]"
      and m: "tokensByCreator f' = (tokensByCreator f)(sender := tokensByCreator f sender @ [addr])"
      using createToken_Inr [OF c] by simp_all
    have "addr \<notin> dom (deployed f)" using n by (simp add: domIff)
    then have fresh: "addr \<notin> set (allTokens f)" using dom by blast
    then have "count_list (allTokens f @ [addr]) addr = 1" by simp
    then show "token \<notin> set (allTokens f) \<and>
            allTokens f' = allTokens f @ [token] \<and>
            tokensByCreator f' sender = tokensByCreator f sender @ [token] \<and>
            (\<forall>u. u \<noteq> sender \<longrightarrow> tokensByCreator f' u = tokensByCreator f u) \<and>
            count_list (allTokens f') token = 1"
      using t l m fresh by simp
  qed
  have bad: "createToken fhe addr sender nm smb issued price f = (Inl e, f') \<longrightarrow>
            allTokens f' = allTokens f \<and> tokensByCreator f' = tokensByCreator f"
  proof
    assume "createToken fhe addr sender nm smb issued price f = (Inl e, f')"
    then have "f' = f" by (rule createToken_Inl)
    then show "allTokens f' = allTokens f \<and> tokensByCreator f' = tokensByCreator f" by simp
  qed
  have grow: "createToken fhe addr sender nm smb issued price f = (r, f2) \<longrightarrow>
            (\<exists>ys. allTokens f2 = allTokens f @ ys) \<and>
            (\<forall>u. \<exists>zs. tokensByCreator f2 u = tokensByCreator f u @ zs)"
    using createToken_grows [of fhe addr sender nm smb issued price f r f2] by blast
  show ?thesis
    apply (intro conjI)
         apply (rule once)
        apply (rule good)
       apply (rule zero)
      apply (rule ok)
     apply (rule bad)
    apply (rule grow)
    done
qed

text \<open>The sample factories are states of the program.\<close>

lemma empty_factory_reachable: "f_reachable clear_fhe empty_factory"
  unfolding empty_factory_def by (rule f_init)

lemma test_createToken:
  "createToken clear_fhe 0x70 0xC0 ''MyToken'' ''MTK'' 10000000 1000000000000000 empty_factory
     = (Inr 0x70, one_token_factory)"
  by (simp add: createToken_unfold test_token_constructed empty_factory_def
      one_token_factory_def)

lemma one_token_factory_reachable: "f_reachable clear_fhe one_token_factory"
  using empty_factory_reachable test_createToken by (rule f_create)

lemma one_token_factory_free: "deployed one_token_factory 0x71 = None"
  by (simp add: one_token_factory_def)

lemma one_token_factory_lists:
  "allTokens one_token_factory = [0x70]"
  "tokensByCreator one_token_factory 0xC0 = [0x70]"
  "tokensByCreator one_token_factory 0xC1 = []"
  by (simp_all add: one_token_factory_def)

text \<open>
  C7 on the test's factory: the creator of the first token creates a second one, at the
  next address. The call succeeds, both lists hold the two addresses in the order of
  creation, each once, and another account's list stays empty. The same call with a
  supply of 0 fails and leaves the factory as it was.
\<close>

theorem registry_lists_witness:
  "count_list (allTokens one_token_factory) 0x70 = 1 \<and>
   (\<exists>g. createToken clear_fhe 0x71 0xC0 ''Second'' ''SEC'' 5000000 1 one_token_factory
           = (Inr 0x71, g) \<and>
        allTokens g = [0x70, 0x71] \<and>
        tokensByCreator g 0xC0 = [0x70, 0x71] \<and>
        tokensByCreator g 0xC1 = [] \<and>
        count_list (allTokens g) 0x71 = 1 \<and>
        count_list (tokensByCreator g 0xC0) 0x71 = 1) \<and>
   createToken clear_fhe 0x71 0xC0 ''Second'' ''SEC'' 0 1 one_token_factory
     = (Inl InvalidAmount, one_token_factory)"
proof -
  note t = registry_lists [OF one_token_factory_reachable,
      of "0x71" "0xC0" 5000000 "''Second''" "''SEC''" 1]
  have first: "count_list (allTokens one_token_factory) 0x70 = 1"
    using t by (simp add: one_token_factory_lists)
  have h: "deployed one_token_factory 0x71 = None \<and> (0xC0::address) \<noteq> 0 \<and>
      (5000000::uint64) \<noteq> 0"
    by (simp add: one_token_factory_free)
  have h0: "deployed one_token_factory 0x71 = None \<and> (0xC0::address) \<noteq> 0"
    by (simp add: one_token_factory_free)
  obtain g where
    run: "createToken clear_fhe 0x71 0xC0 ''Second'' ''SEC'' 5000000 1 one_token_factory
            = (Inr 0x71, g)"
    and l: "allTokens g = allTokens one_token_factory @ [0x71]"
    and m: "tokensByCreator g 0xC0 = tokensByCreator one_token_factory 0xC0 @ [0x71]"
    and o: "\<forall>u. u \<noteq> 0xC0 \<longrightarrow> tokensByCreator g u = tokensByCreator one_token_factory u"
    and c1: "count_list (allTokens g) 0x71 = 1"
    and c2: "count_list (tokensByCreator g 0xC0) 0x71 = 1"
    using t h by blast
  have other: "tokensByCreator g 0xC1 = []" using o by (simp add: one_token_factory_lists)
  have second: "\<exists>g. createToken clear_fhe 0x71 0xC0 ''Second'' ''SEC'' 5000000 1
          one_token_factory = (Inr 0x71, g) \<and>
        allTokens g = [0x70, 0x71] \<and>
        tokensByCreator g 0xC0 = [0x70, 0x71] \<and>
        tokensByCreator g 0xC1 = [] \<and>
        count_list (allTokens g) 0x71 = 1 \<and>
        count_list (tokensByCreator g 0xC0) 0x71 = 1"
    using run l m other c1 c2 by (auto simp: one_token_factory_lists)
  have none: "createToken clear_fhe 0x71 0xC0 ''Second'' ''SEC'' 0 1 one_token_factory
     = (Inl InvalidAmount, one_token_factory)"
    using t h0 by blast
  show ?thesis using first second none by blast
qed

end
